theory Spec2Isabelle
  imports Main "HOL-Library.Multiset"
begin

section \<open>Go values and library functions\<close>

text \<open>
  Go strings are byte sequences, so they are \<^typ>\<open>string\<close> here. Field numbers and
  indexes are Go \<^verbatim>\<open>int32\<close> values widened to \<^verbatim>\<open>int\<close> before any arithmetic
  (\<^verbatim>\<open>int(n) + 1\<close>, \<^verbatim>\<open>int(n) - 1\<close>), which cannot wrap; they are \<^typ>\<open>int\<close>.

  A Go panic (and the one error return of \<^verbatim>\<open>parseParameters\<close>, which \<^verbatim>\<open>main\<close>
  turns into \<^verbatim>\<open>log.Fatalf\<close>) is a value of type \<open>error\<close>; nothing in the
  program recovers from a panic, so a function that can panic returns \<open>error + 'a\<close>.
\<close>

text \<open>
  The kind and the label of a field are Go enums, that is \<^verbatim>\<open>int32\<close> values with
  named constants (\<^verbatim>\<open>FieldDescriptorProto_Type\<close>, \<^verbatim>\<open>FieldDescriptorProto_Label\<close>):
  a descriptor can hold a number that has no name, and a \<^verbatim>\<open>switch\<close> sends it to
  \<^verbatim>\<open>default\<close>.
\<close>

type_synonym FieldDescriptorProto_Type = int
type_synonym FieldDescriptorProto_Label = int

definition TYPE_DOUBLE :: FieldDescriptorProto_Type where "TYPE_DOUBLE = 1"
definition TYPE_FLOAT :: FieldDescriptorProto_Type where "TYPE_FLOAT = 2"
definition TYPE_INT64 :: FieldDescriptorProto_Type where "TYPE_INT64 = 3"
definition TYPE_UINT64 :: FieldDescriptorProto_Type where "TYPE_UINT64 = 4"
definition TYPE_INT32 :: FieldDescriptorProto_Type where "TYPE_INT32 = 5"
definition TYPE_FIXED64 :: FieldDescriptorProto_Type where "TYPE_FIXED64 = 6"
definition TYPE_FIXED32 :: FieldDescriptorProto_Type where "TYPE_FIXED32 = 7"
definition TYPE_BOOL :: FieldDescriptorProto_Type where "TYPE_BOOL = 8"
definition TYPE_STRING :: FieldDescriptorProto_Type where "TYPE_STRING = 9"
definition TYPE_GROUP :: FieldDescriptorProto_Type where "TYPE_GROUP = 10"
definition TYPE_MESSAGE :: FieldDescriptorProto_Type where "TYPE_MESSAGE = 11"
definition TYPE_BYTES :: FieldDescriptorProto_Type where "TYPE_BYTES = 12"
definition TYPE_UINT32 :: FieldDescriptorProto_Type where "TYPE_UINT32 = 13"
definition TYPE_ENUM :: FieldDescriptorProto_Type where "TYPE_ENUM = 14"
definition TYPE_SFIXED32 :: FieldDescriptorProto_Type where "TYPE_SFIXED32 = 15"
definition TYPE_SFIXED64 :: FieldDescriptorProto_Type where "TYPE_SFIXED64 = 16"
definition TYPE_SINT32 :: FieldDescriptorProto_Type where "TYPE_SINT32 = 17"
definition TYPE_SINT64 :: FieldDescriptorProto_Type where "TYPE_SINT64 = 18"

lemmas kind_defs =
  TYPE_DOUBLE_def TYPE_FLOAT_def TYPE_INT64_def TYPE_UINT64_def TYPE_INT32_def
  TYPE_FIXED64_def TYPE_FIXED32_def TYPE_BOOL_def TYPE_STRING_def TYPE_GROUP_def
  TYPE_MESSAGE_def TYPE_BYTES_def TYPE_UINT32_def TYPE_ENUM_def TYPE_SFIXED32_def
  TYPE_SFIXED64_def TYPE_SINT32_def TYPE_SINT64_def

definition LABEL_OPTIONAL :: FieldDescriptorProto_Label where "LABEL_OPTIONAL = 1"
definition LABEL_REQUIRED :: FieldDescriptorProto_Label where "LABEL_REQUIRED = 2"
definition LABEL_REPEATED :: FieldDescriptorProto_Label where "LABEL_REPEATED = 3"

lemmas label_defs = LABEL_OPTIONAL_def LABEL_REQUIRED_def LABEL_REPEATED_def

datatype error =
    UnsupportedFieldType FieldDescriptorProto_Type
  | IndexOutOfRange int nat
  | SliceBoundsOutOfRange nat nat
  | UnknownParameter string

definition rbind :: "error + 'a \<Rightarrow> ('a \<Rightarrow> error + 'b) \<Rightarrow> error + 'b" where
  "rbind m f = (case m of Inl e \<Rightarrow> Inl e | Inr x \<Rightarrow> f x)"

text \<open>\<^verbatim>\<open>xs[i]\<close> on a slice, with Go's bounds check.\<close>

definition index :: "'a list \<Rightarrow> int \<Rightarrow> error + 'a" where
  "index xs i =
     (if 0 \<le> i \<and> i < int (length xs) then Inr (xs ! nat i)
      else Inl (IndexOutOfRange i (length xs)))"

text \<open>\<^verbatim>\<open>strings.Join\<close>, \<^verbatim>\<open>strings.Split\<close> on a one-byte separator,
  \<^verbatim>\<open>strings.Replace(s, old, new, -1)\<close> for a one-byte \<^verbatim>\<open>old\<close>, and
  \<^verbatim>\<open>strings.TrimSuffix\<close>.\<close>

fun Join :: "string list \<Rightarrow> string \<Rightarrow> string" where
  "Join [] sep = []"
| "Join [x] sep = x"
| "Join (x # y # ys) sep = x @ sep @ Join (y # ys) sep"

fun Split :: "string \<Rightarrow> char \<Rightarrow> string list" where
  "Split [] sep = [[]]"
| "Split (c # cs) sep =
     (if c = sep then [] # Split cs sep
      else (case Split cs sep of [] \<Rightarrow> [[c]] | w # ws \<Rightarrow> (c # w) # ws))"

definition ReplaceByte :: "string \<Rightarrow> char \<Rightarrow> string \<Rightarrow> string" where
  "ReplaceByte s old new = concat (map (\<lambda>c. if c = old then new else [c]) s)"

definition TrimSuffix :: "string \<Rightarrow> string \<Rightarrow> string" where
  "TrimSuffix s suffix =
     (if length suffix \<le> length s \<and> drop (length s - length suffix) s = suffix
      then take (length s - length suffix) s else s)"

text \<open>\<^verbatim>\<open>fmt.Sprintf("%d", n)\<close>.\<close>

fun decimal :: "nat \<Rightarrow> string" where
  "decimal n =
     (if n < 10 then [''0123456789'' ! n]
      else decimal (n div 10) @ [''0123456789'' ! (n mod 10)])"

declare decimal.simps [simp del]

definition Sprintf_d :: "int \<Rightarrow> string" where
  "Sprintf_d n = (if n < 0 then CHR ''-'' # decimal (nat (- n)) else decimal (nat n))"

text \<open>
  \<^verbatim>\<open>strings.ToUpper\<close> on a string of at most one byte, which is all that
  \<^verbatim>\<open>fieldDefault\<close> passes to it: an ASCII lower-case letter is upper-cased, another
  ASCII byte is kept, and a byte from 0x80 on is not valid UTF-8 on its own, so
  \<^verbatim>\<open>strings.Map\<close> writes U+FFFD (EF BF BD) for it.
\<close>

definition ToUpper1 :: "string \<Rightarrow> string" where
  "ToUpper1 s =
     (case s of
        [] \<Rightarrow> []
      | c # _ \<Rightarrow>
          (case map_of (zip ''abcdefghijklmnopqrstuvwxyz'' ''ABCDEFGHIJKLMNOPQRSTUVWXYZ'') c of
             Some u \<Rightarrow> [u]
           | None \<Rightarrow> if of_char c < (128 :: nat) then [c] else [CHR 0xEF, CHR 0xBF, CHR 0xBD]))"

text \<open>
  The string helpers whose code is not among the sources are parameters of the model:
  the four functions of this repository's package \<^verbatim>\<open>stringextras\<close>, and the two
  functions of Go's library that consult the Unicode tables (\<^verbatim>\<open>strings.ToLower\<close>, and
  \<^verbatim>\<open>unicode.IsLower\<close> of the first rune of a string). Every theorem below holds for
  any choice of them.
\<close>

record textfuns =
  FirstUpper :: "string \<Rightarrow> string"
  FirstLower :: "string \<Rightarrow> string"
  CamelCase :: "string \<Rightarrow> string"
  LowerCamelCase :: "string \<Rightarrow> string"
  ToLower :: "string \<Rightarrow> string"
  IsLowerFirstRune :: "string \<Rightarrow> bool"

section \<open>The descriptors (package descriptorpb)\<close>

text \<open>
  Optional protobuf fields are Go pointers; \<open>None\<close> is \<^verbatim>\<open>nil\<close>. The getters return
  the protobuf default for \<^verbatim>\<open>nil\<close>, as the generated Go code does.
\<close>

record FieldOptions =
  fo_Deprecated :: "bool option"

record MessageOptions =
  mo_Deprecated :: "bool option"
  mo_MapEntry :: "bool option"

record EnumOptions =
  eo_Deprecated :: "bool option"

record EnumValueOptions =
  evo_Deprecated :: "bool option"

record FieldDescriptorProto =
  fd_Name :: "string option"
  fd_Number :: "int option"
  fd_Label :: "FieldDescriptorProto_Label option"
  fd_Type :: "FieldDescriptorProto_Type option"
  fd_TypeName :: "string option"
  fd_DefaultValue :: "string option"
  fd_OneofIndex :: "int option"
  fd_Options :: "FieldOptions option"

record OneofDescriptorProto =
  od_Name :: "string option"

record EnumValueDescriptorProto =
  evd_Name :: "string option"
  evd_Number :: "int option"
  evd_Options :: "EnumValueOptions option"

record EnumDescriptorProto =
  ed_Name :: "string option"
  ed_Value :: "EnumValueDescriptorProto list"
  ed_Options :: "EnumOptions option"

datatype DescriptorProto = DescriptorProto
  (md_Name: "string option")
  (md_Field: "FieldDescriptorProto list")
  (md_NestedType: "DescriptorProto list")
  (md_EnumType: "EnumDescriptorProto list")
  (md_OneofDecl: "OneofDescriptorProto list")
  (md_Options: "MessageOptions option")

definition GetString :: "string option \<Rightarrow> string" where
  "GetString p = (case p of None \<Rightarrow> [] | Some s \<Rightarrow> s)"

definition GetInt32 :: "int option \<Rightarrow> int" where
  "GetInt32 p = (case p of None \<Rightarrow> 0 | Some n \<Rightarrow> n)"

definition GetType :: "FieldDescriptorProto \<Rightarrow> FieldDescriptorProto_Type" where
  "GetType f = (case fd_Type f of None \<Rightarrow> TYPE_DOUBLE | Some t \<Rightarrow> t)"

definition GetLabel :: "FieldDescriptorProto \<Rightarrow> FieldDescriptorProto_Label" where
  "GetLabel f = (case fd_Label f of None \<Rightarrow> LABEL_OPTIONAL | Some l \<Rightarrow> l)"

definition isDeprecatedPtr :: "bool option \<Rightarrow> bool" where
  "isDeprecatedPtr d = (case d of None \<Rightarrow> False | Some b \<Rightarrow> b)"

definition GetMapEntry :: "DescriptorProto \<Rightarrow> bool" where
  "GetMapEntry m =
     (case md_Options m of None \<Rightarrow> False
      | Some opts \<Rightarrow> (case mo_MapEntry opts of None \<Rightarrow> False | Some b \<Rightarrow> b))"

text \<open>
  \<^verbatim>\<open>isDeprecated\<close> switches on the dynamic type of its argument; each case is
  \<^verbatim>\<open>v != nil && v.Deprecated != nil && *v.Deprecated\<close>. The argument is the
  \<^verbatim>\<open>Options\<close> pointer of a message, a field, an enum or an enum value.
\<close>

datatype options =
    OfMessage "MessageOptions option"
  | OfField "FieldOptions option"
  | OfEnum "EnumOptions option"
  | OfEnumValue "EnumValueOptions option"

fun isDeprecated :: "options \<Rightarrow> bool" where
  "isDeprecated (OfMessage v) = (case v of None \<Rightarrow> False | Some opts \<Rightarrow> isDeprecatedPtr (mo_Deprecated opts))"
| "isDeprecated (OfField v) = (case v of None \<Rightarrow> False | Some opts \<Rightarrow> isDeprecatedPtr (fo_Deprecated opts))"
| "isDeprecated (OfEnum v) = (case v of None \<Rightarrow> False | Some opts \<Rightarrow> isDeprecatedPtr (eo_Deprecated opts))"
| "isDeprecated (OfEnumValue v) = (case v of None \<Rightarrow> False | Some opts \<Rightarrow> isDeprecatedPtr (evo_Deprecated opts))"

section \<open>Package elm: names, types and the per-kind classifier\<close>

type_synonym Type = string
type_synonym VariableName = string
type_synonym VariantName = string
type_synonym FieldDecoder = string
type_synonym FieldEncoder = string
type_synonym ProtobufFieldNumber = int

record WellKnownType =
  wk_Type :: Type
  wk_Encoder :: VariableName
  wk_Decoder :: VariableName

definition intType :: Type where "intType = ''Int''"
definition floatType :: Type where "floatType = ''Float''"
definition stringType :: Type where "stringType = ''String''"
definition bytesType :: Type where "bytesType = ''Bytes''"
definition boolType :: Type where "boolType = ''Bool''"

definition WellKnownTypeMap :: "string \<rightharpoonup> WellKnownType" where
  "WellKnownTypeMap = map_of
     [(''.google.protobuf.Timestamp'',
         \<lparr>wk_Type = ''Timestamp'', wk_Encoder = ''timestampEncoder'', wk_Decoder = ''timestampDecoder''\<rparr>),
      (''.google.protobuf.Int32Value'',
         \<lparr>wk_Type = intType, wk_Encoder = ''intValueEncoder'', wk_Decoder = ''intValueDecoder''\<rparr>),
      (''.google.protobuf.Int64Value'',
         \<lparr>wk_Type = intType, wk_Encoder = ''numericStringEncoder'', wk_Decoder = ''intValueDecoder''\<rparr>),
      (''.google.protobuf.UInt32Value'',
         \<lparr>wk_Type = intType, wk_Encoder = ''intValueEncoder'', wk_Decoder = ''intValueDecoder''\<rparr>),
      (''.google.protobuf.UInt64Value'',
         \<lparr>wk_Type = intType, wk_Encoder = ''numericStringEncoder'', wk_Decoder = ''intValueDecoder''\<rparr>),
      (''.google.protobuf.DoubleValue'',
         \<lparr>wk_Type = floatType, wk_Encoder = ''floatValueEncoder'', wk_Decoder = ''floatValueDecoder''\<rparr>),
      (''.google.protobuf.FloatValue'',
         \<lparr>wk_Type = floatType, wk_Encoder = ''floatValueEncoder'', wk_Decoder = ''floatValueDecoder''\<rparr>),
      (''.google.protobuf.StringValue'',
         \<lparr>wk_Type = stringType, wk_Encoder = ''stringValueEncoder'', wk_Decoder = ''stringValueDecoder''\<rparr>),
      (''.google.protobuf.BytesValue'',
         \<lparr>wk_Type = bytesType, wk_Encoder = ''bytesValueEncoder'', wk_Decoder = ''bytesValueDecoder''\<rparr>),
      (''.google.protobuf.BoolValue'',
         \<lparr>wk_Type = boolType, wk_Encoder = ''boolValueEncoder'', wk_Decoder = ''boolValueDecoder''\<rparr>)]"

definition reservedKeywords :: "string \<Rightarrow> bool" where
  "reservedKeywords s \<longleftrightarrow> s \<in> set
     [''module'', ''exposing'', ''import'', ''type'', ''let'', ''in'', ''if'', ''then'',
      ''else'', ''where'', ''case'', ''of'', ''port'', ''as'']"

definition avoidCollision :: "string \<Rightarrow> string" where
  "avoidCollision s = (if reservedKeywords s then s @ ''_'' else s)"

definition jsIdx :: "ProtobufFieldNumber \<Rightarrow> int" where
  "jsIdx i = i - 1"

definition FieldName :: "textfuns \<Rightarrow> string \<Rightarrow> VariableName" where
  "FieldName tf s = avoidCollision (LowerCamelCase tf s)"

definition FieldNum :: "FieldDescriptorProto \<Rightarrow> ProtobufFieldNumber" where
  "FieldNum pb = GetInt32 (fd_Number pb)"

definition DecoderName :: "textfuns \<Rightarrow> Type \<Rightarrow> VariableName" where
  "DecoderName tf t = FirstLower tf (t @ ''PortDecoder'')"

definition EncoderName :: "textfuns \<Rightarrow> Type \<Rightarrow> VariableName" where
  "EncoderName tf t = FirstLower tf (t @ ''PortEncoder'')"

text \<open>\<^verbatim>\<open>append(preface, x)\<close> puts \<open>x\<close> after the elements of \<open>preface\<close>.\<close>

definition NestedType :: "textfuns \<Rightarrow> string \<Rightarrow> string list \<Rightarrow> Type" where
  "NestedType tf name preface = FirstUpper tf (Join (preface @ [CamelCase tf name]) ''_'')"

definition NestedVariantName :: "textfuns \<Rightarrow> string \<Rightarrow> string list \<Rightarrow> VariantName" where
  "NestedVariantName tf name preface = Join (preface @ [CamelCase tf (ToLower tf name)]) ''_''"

definition EnumDefaultVariantVariableName :: "textfuns \<Rightarrow> Type \<Rightarrow> VariableName" where
  "EnumDefaultVariantVariableName tf t = FirstLower tf (t @ ''Default'')"

definition ExternalType :: "textfuns \<Rightarrow> string \<Rightarrow> Type" where
  "ExternalType tf inType =
     Join (map (FirstUpper tf)
            (filter (\<lambda>s. s \<noteq> [] \<and> \<not> IsLowerFirstRune tf s) (Split inType CHR ''.''))) ''_''"

text \<open>
  Each classifier is a \<^verbatim>\<open>switch\<close> on the kind whose \<^verbatim>\<open>default\<close> panics; the cases
  are in the order of the source.
\<close>

definition BasicFieldEncoder :: "textfuns \<Rightarrow> FieldDescriptorProto \<Rightarrow> error + VariableName" where
  "BasicFieldEncoder tf inField =
     (let t = GetType inField in
      if t \<in> {TYPE_INT32, TYPE_UINT32, TYPE_SINT32, TYPE_FIXED32, TYPE_SFIXED32} then
        Inr ''JE.int''
      else if t \<in> {TYPE_INT64, TYPE_UINT64, TYPE_SINT64, TYPE_FIXED64, TYPE_SFIXED64} then
        Inr ''numericStringEncoder''
      else if t \<in> {TYPE_FLOAT, TYPE_DOUBLE} then Inr ''JE.float''
      else if t = TYPE_BOOL then Inr ''JE.bool''
      else if t = TYPE_STRING then Inr ''JE.string''
      else if t \<in> {TYPE_ENUM, TYPE_MESSAGE} then
        (case WellKnownTypeMap (GetString (fd_TypeName inField)) of
           Some n \<Rightarrow> Inr (wk_Encoder n)
         | None \<Rightarrow> Inr (EncoderName tf (ExternalType tf (GetString (fd_TypeName inField)))))
      else if t = TYPE_BYTES then Inr ''bytesFieldEncoder''
      else Inl (UnsupportedFieldType t))"

definition BasicFieldDecoder :: "textfuns \<Rightarrow> FieldDescriptorProto \<Rightarrow> error + VariableName" where
  "BasicFieldDecoder tf inField =
     (let t = GetType inField in
      if t \<in> {TYPE_INT32, TYPE_INT64, TYPE_UINT32, TYPE_UINT64, TYPE_SINT32, TYPE_SINT64,
               TYPE_FIXED32, TYPE_FIXED64, TYPE_SFIXED32, TYPE_SFIXED64} then
        Inr ''intDecoder''
      else if t \<in> {TYPE_FLOAT, TYPE_DOUBLE} then Inr ''JD.float''
      else if t = TYPE_BOOL then Inr ''JD.bool''
      else if t = TYPE_STRING then Inr ''JD.string''
      else if t = TYPE_BYTES then Inr ''bytesFieldDecoder''
      else if t \<in> {TYPE_ENUM, TYPE_MESSAGE} then
        (case WellKnownTypeMap (GetString (fd_TypeName inField)) of
           Some n \<Rightarrow> Inr (wk_Decoder n)
         | None \<Rightarrow> Inr (DecoderName tf (ExternalType tf (GetString (fd_TypeName inField)))))
      else Inl (UnsupportedFieldType t))"

definition BasicFieldType :: "textfuns \<Rightarrow> FieldDescriptorProto \<Rightarrow> error + Type" where
  "BasicFieldType tf inField =
     (let t = GetType inField in
      if t \<in> {TYPE_INT32, TYPE_INT64, TYPE_UINT32, TYPE_UINT64, TYPE_SINT32, TYPE_SINT64,
               TYPE_FIXED32, TYPE_FIXED64, TYPE_SFIXED32, TYPE_SFIXED64} then
        Inr intType
      else if t \<in> {TYPE_FLOAT, TYPE_DOUBLE} then Inr floatType
      else if t = TYPE_BOOL then Inr boolType
      else if t = TYPE_STRING then Inr stringType
      else if t = TYPE_BYTES then Inr bytesType
      else if t \<in> {TYPE_ENUM, TYPE_MESSAGE} then
        (case WellKnownTypeMap (GetString (fd_TypeName inField)) of
           Some n \<Rightarrow> Inr (wk_Type n)
         | None \<Rightarrow> Inr (ExternalType tf (GetString (fd_TypeName inField))))
      else Inl (UnsupportedFieldType t))"

definition BasicFieldDefaultValue :: "textfuns \<Rightarrow> FieldDescriptorProto \<Rightarrow> error + string" where
  "BasicFieldDefaultValue tf inField =
     (if GetLabel inField = LABEL_REPEATED then Inr ''[]''
      else
        let t = GetType inField in
        if t \<in> {TYPE_INT32, TYPE_INT64, TYPE_UINT32, TYPE_UINT64, TYPE_SINT32, TYPE_SINT64,
                 TYPE_FIXED32, TYPE_FIXED64, TYPE_SFIXED32, TYPE_SFIXED64, TYPE_FLOAT,
                 TYPE_DOUBLE} then
          Inr ''0''
        else if t = TYPE_BOOL then Inr ''False''
        else if t = TYPE_STRING then Inr [CHR 0x22, CHR 0x22]
        else if t = TYPE_BYTES then Inr ''[]''
        else if t = TYPE_ENUM then
          Inr (EnumDefaultVariantVariableName tf (ExternalType tf (GetString (fd_TypeName inField))))
        else if t = TYPE_MESSAGE then Inr ''Nothing''
        else Inl (UnsupportedFieldType t))"


text \<open>
  A loop \<^verbatim>\<open>for _, x := range xs\<close> that appends one element per iteration, or none
  when the body says \<^verbatim>\<open>continue\<close>; a panic in the body ends it.
\<close>

fun forEach :: "('a \<Rightarrow> error + 'b option) \<Rightarrow> 'a list \<Rightarrow> error + 'b list" where
  "forEach body [] = Inr []"
| "forEach body (x # xs) =
     rbind (body x) (\<lambda>r. rbind (forEach body xs) (\<lambda>rs.
       Inr (case r of None \<Rightarrow> rs | Some y \<Rightarrow> y # rs)))"

record TypeAliasField =
  taf_Name :: VariableName
  taf_Type :: Type
  taf_Number :: ProtobufFieldNumber
  taf_Default :: string
  taf_Decoder :: FieldDecoder
  taf_Encoder :: FieldEncoder

record TypeAlias =
  ta_Name :: Type
  ta_Decoder :: VariableName
  ta_Encoder :: VariableName
  ta_FieldEncoders :: "TypeAliasField list"
  ta_Fields :: "TypeAliasField list"

record EnumVariant =
  ev_Name :: VariantName
  ev_Value :: ProtobufFieldNumber

record EnumCustomType =
  ect_Name :: Type
  ect_Decoder :: VariableName
  ect_Encoder :: VariableName
  ect_DefaultVariantVariable :: VariableName
  ect_DefaultVariantValue :: VariantName
  ect_Variants :: "EnumVariant list"

record OneOfVariant =
  ov_Name :: VariantName
  ov_Type :: Type
  ov_Num :: ProtobufFieldNumber
  ov_Decoder :: VariableName
  ov_Encoder :: VariableName

record OneOfCustomType =
  oct_Name :: Type
  oct_Decoder :: VariableName
  oct_Encoder :: VariableName
  oct_Variants :: "OneOfVariant list"

definition RequiredFieldEncoder :: "textfuns \<Rightarrow> FieldDescriptorProto \<Rightarrow> error + FieldEncoder" where
  "RequiredFieldEncoder tf pb =
     rbind (BasicFieldEncoder tf pb) (\<lambda>enc.
       Inr (enc @ '' v.'' @ FieldName tf (GetString (fd_Name pb))))"

definition RequiredFieldDecoder :: "textfuns \<Rightarrow> FieldDescriptorProto \<Rightarrow> error + FieldDecoder" where
  "RequiredFieldDecoder tf pb =
     rbind (BasicFieldDecoder tf pb) (\<lambda>dec.
     rbind (BasicFieldDefaultValue tf pb) (\<lambda>def.
       Inr (''idxWithDefault '' @ Sprintf_d (jsIdx (FieldNum pb)) @ '' '' @ dec @ '' '' @ def)))"

definition OneOfEncoder ::
  "textfuns \<Rightarrow> OneofDescriptorProto \<Rightarrow> FieldDescriptorProto \<Rightarrow> Type \<Rightarrow> FieldEncoder" where
  "OneOfEncoder tf oneof field t =
     EncoderName tf t @ '' '' @ Sprintf_d (FieldNum field) @ '' v.''
       @ FieldName tf (GetString (od_Name oneof))"

definition OneOfDecoder :: "textfuns \<Rightarrow> OneofDescriptorProto \<Rightarrow> Type \<Rightarrow> FieldDecoder" where
  "OneOfDecoder tf pb t = ''custom '' @ DecoderName tf t"

definition MapType :: "textfuns \<Rightarrow> DescriptorProto \<Rightarrow> error + Type" where
  "MapType tf messagePb =
     rbind (index (md_Field messagePb) 0) (\<lambda>keyField.
     rbind (index (md_Field messagePb) 1) (\<lambda>valueField.
     rbind (BasicFieldType tf keyField) (\<lambda>k.
     rbind (BasicFieldType tf valueField) (\<lambda>v.
       Inr (''Dict.Dict '' @ k @ '' '' @ v)))))"

definition MapEncoder ::
  "textfuns \<Rightarrow> FieldDescriptorProto \<Rightarrow> DescriptorProto \<Rightarrow> error + FieldEncoder" where
  "MapEncoder tf fieldPb messagePb =
     rbind (index (md_Field messagePb) 1) (\<lambda>valueField.
     rbind (BasicFieldEncoder tf valueField) (\<lambda>enc.
       Inr (''mapEntriesFieldEncoder '' @ Sprintf_d (FieldNum fieldPb) @ '' '' @ enc @ '' v.''
              @ FieldName tf (GetString (fd_Name fieldPb)))))"

definition MapDecoder ::
  "textfuns \<Rightarrow> FieldDescriptorProto \<Rightarrow> DescriptorProto \<Rightarrow> error + FieldDecoder" where
  "MapDecoder tf fieldPb messagePb =
     rbind (index (md_Field messagePb) 1) (\<lambda>valueField.
     rbind (BasicFieldDecoder tf valueField) (\<lambda>dec.
       Inr (''mapEntries '' @ Sprintf_d (FieldNum fieldPb) @ '' '' @ dec)))"

definition MaybeType :: "Type \<Rightarrow> Type" where
  "MaybeType t = ''Maybe '' @ t"

definition MaybeEncoder :: "textfuns \<Rightarrow> FieldDescriptorProto \<Rightarrow> error + FieldEncoder" where
  "MaybeEncoder tf pb =
     rbind (BasicFieldEncoder tf pb) (\<lambda>enc.
       Inr (''maybeEncoder '' @ enc @ '' v.'' @ FieldName tf (GetString (fd_Name pb))))"

definition MaybeDecoder :: "textfuns \<Rightarrow> FieldDescriptorProto \<Rightarrow> error + FieldDecoder" where
  "MaybeDecoder tf pb =
     rbind (BasicFieldDecoder tf pb) (\<lambda>dec.
       Inr (''idxWithDefault '' @ Sprintf_d (jsIdx (FieldNum pb)) @ '' (JD.maybe '' @ dec
              @ '') Nothing''))"

definition ListType :: "Type \<Rightarrow> Type" where
  "ListType t = ''List '' @ t"

definition ListEncoder :: "textfuns \<Rightarrow> FieldDescriptorProto \<Rightarrow> error + FieldEncoder" where
  "ListEncoder tf pb =
     rbind (BasicFieldEncoder tf pb) (\<lambda>enc.
       Inr (''JE.list '' @ enc @ '' v.'' @ FieldName tf (GetString (fd_Name pb))))"

definition ListDecoder :: "textfuns \<Rightarrow> FieldDescriptorProto \<Rightarrow> error + FieldDecoder" where
  "ListDecoder tf pb =
     rbind (BasicFieldDecoder tf pb) (\<lambda>dec.
       Inr (''idxWithDefault '' @ Sprintf_d (jsIdx (FieldNum pb)) @ '' (JD.list '' @ dec
              @ '') []''))"

definition OneOfType :: "Type \<Rightarrow> Type" where
  "OneOfType t = t"

section \<open>The templates that the claims are about\<close>

text \<open>
  The encoder of the template \<^verbatim>\<open>type-alias\<close> writes an Elm list: for each element of
  \<^verbatim>\<open>.FieldEncoders\<close>, one \<^verbatim>\<open>JE.null\<close> for each number of
  \<^verbatim>\<open>fieldSeq $idx $v.Number\<close>, then \<^verbatim>\<open>($v.Encoder)\<close>, then
  \<^verbatim>\<open>$idx = nextFieldNum $v.Number\<close>; \<^verbatim>\<open>$idx\<close> starts at 1. The model keeps the
  elements written, in order, each with whether the template wrote the separator
  \<^verbatim>\<open>, \<close> before it (\<^verbatim>\<open>ne . 1\<close> for a placeholder, \<^verbatim>\<open>ne $v.Number 1\<close> for an
  encoder).
\<close>

definition fieldSeq :: "int \<Rightarrow> ProtobufFieldNumber \<Rightarrow> int list" where
  "fieldSeq from to = [from..to - 1]"

definition nextFieldNum :: "ProtobufFieldNumber \<Rightarrow> int" where
  "nextFieldNum n = n + 1"

definition toJSIdx :: "ProtobufFieldNumber \<Rightarrow> int" where
  "toJSIdx n = n - 1"

datatype encoder_item = JE_null | Call FieldEncoder

fun encoderItems :: "int \<Rightarrow> TypeAliasField list \<Rightarrow> (bool \<times> encoder_item) list" where
  "encoderItems idx [] = []"
| "encoderItems idx (v # vs) =
     map (\<lambda>i. (i \<noteq> 1, JE_null)) (fieldSeq idx (taf_Number v))
     @ [(taf_Number v \<noteq> 1, Call (taf_Encoder v))]
     @ encoderItems (nextFieldNum (taf_Number v)) vs"

definition encodePlan :: "TypeAlias \<Rightarrow> encoder_item list" where
  "encodePlan alias = map snd (encoderItems 1 (ta_FieldEncoders alias))"

text \<open>
  The decoder of the template \<^verbatim>\<open>oneof-custom-type\<close> is \<^verbatim>\<open>JD.oneOf\<close> of a list:
  \<^verbatim>\<open>JD.map Name (JD.index (toJSIdx Num) (failOnNull Decoder))\<close> for each variant, then
  \<^verbatim>\<open>JD.succeed NameUnspecified\<close>.
\<close>

datatype decoder_alternative =
    MapIndexFailOnNull VariantName int VariableName
  | Succeed string

definition oneOfDecoderAlternatives :: "OneOfCustomType \<Rightarrow> decoder_alternative list" where
  "oneOfDecoderAlternatives t =
     map (\<lambda>v. MapIndexFailOnNull (ov_Name v) (toJSIdx (ov_Num v)) (ov_Decoder v)) (oct_Variants t)
     @ [Succeed (oct_Name t @ ''Unspecified'')]"

section \<open>The descriptor walk (cmd/protoc-gen-elm/main.go)\<close>

record parameters =
  Version :: bool
  Debug :: bool
  RemoveDeprecated :: bool
  modPrefix :: string

datatype pbMessage = pbMessage
  (pm_TypeAlias: TypeAlias)
  (pm_OneOfCustomTypes: "OneOfCustomType list")
  (pm_EnumCustomTypes: "EnumCustomType list")
  (pm_NestedMessages: "pbMessage list")

text \<open>The values of an enum that the inner loop of \<^verbatim>\<open>enumsToCustomTypes\<close> keeps.\<close>

definition keptValues :: "EnumDescriptorProto \<Rightarrow> parameters \<Rightarrow> EnumValueDescriptorProto list" where
  "keptValues enumPb p =
     filter (\<lambda>v. \<not> (isDeprecated (OfEnumValue (evd_Options v)) \<and> RemoveDeprecated p))
       (ed_Value enumPb)"

definition enumsToCustomTypes ::
  "textfuns \<Rightarrow> string list \<Rightarrow> EnumDescriptorProto list \<Rightarrow> parameters \<Rightarrow> error + EnumCustomType list" where
  "enumsToCustomTypes tf preface enumPbs p =
     forEach (\<lambda>enumPb.
       if isDeprecated (OfEnum (ed_Options enumPb)) \<and> RemoveDeprecated p then Inr None
       else
         let values =
               map (\<lambda>v. \<lparr>ev_Name = NestedVariantName tf (GetString (evd_Name v)) preface,
                          ev_Value = GetInt32 (evd_Number v)\<rparr>)
                 (keptValues enumPb p);
             enumType = NestedType tf (GetString (ed_Name enumPb)) preface
         in rbind (index values 0) (\<lambda>first.
              Inr (Some \<lparr>ect_Name = enumType,
                         ect_Decoder = DecoderName tf enumType,
                         ect_Encoder = EncoderName tf enumType,
                         ect_DefaultVariantVariable = EnumDefaultVariantVariableName tf enumType,
                         ect_DefaultVariantValue = ev_Name first,
                         ect_Variants = values\<rparr>)))
       enumPbs"

text \<open>The fields that a loop over \<^verbatim>\<open>messagePb.GetField()\<close> does not skip as deprecated.\<close>

definition keptFields :: "DescriptorProto \<Rightarrow> parameters \<Rightarrow> FieldDescriptorProto list" where
  "keptFields messagePb p =
     filter (\<lambda>f. \<not> (isDeprecated (OfField (fd_Options f)) \<and> RemoveDeprecated p))
       (md_Field messagePb)"

definition oneOfVariants ::
  "textfuns \<Rightarrow> string list \<Rightarrow> DescriptorProto \<Rightarrow> parameters \<Rightarrow> nat \<Rightarrow> error + OneOfVariant list" where
  "oneOfVariants tf preface messagePb p oneofIndex =
     forEach (\<lambda>inField.
       if fd_OneofIndex inField = None \<or> GetInt32 (fd_OneofIndex inField) \<noteq> int oneofIndex
       then Inr None
       else
         rbind (BasicFieldType tf inField) (\<lambda>t.
         rbind (BasicFieldDecoder tf inField) (\<lambda>dec.
         rbind (BasicFieldEncoder tf inField) (\<lambda>enc.
           Inr (Some \<lparr>ov_Name = NestedVariantName tf (GetString (fd_Name inField)) preface,
                      ov_Type = t,
                      ov_Num = GetInt32 (fd_Number inField),
                      ov_Decoder = dec,
                      ov_Encoder = enc\<rparr>)))))
       (keptFields messagePb p)"

definition oneOfsToCustomTypes ::
  "textfuns \<Rightarrow> string list \<Rightarrow> DescriptorProto \<Rightarrow> parameters \<Rightarrow> error + OneOfCustomType list" where
  "oneOfsToCustomTypes tf preface messagePb p =
     (if isDeprecated (OfMessage (md_Options messagePb)) \<and> RemoveDeprecated p then Inr []
      else
        forEach (\<lambda>(oneofIndex, oneOfPb).
          rbind (oneOfVariants tf preface messagePb p oneofIndex) (\<lambda>variants.
            let name = NestedType tf (GetString (od_Name oneOfPb)) preface
            in Inr (Some \<lparr>oct_Name = name,
                          oct_Decoder = DecoderName tf name,
                          oct_Encoder = EncoderName tf name,
                          oct_Variants = variants\<rparr>)))
          (enumerate 0 (md_OneofDecl messagePb)))"

text \<open>
  \<^verbatim>\<open>defV[:1]\<close> panics on the empty string; \<^verbatim>\<open>defV[1:]\<close> is evaluated after it.
  \<^verbatim>\<open>fmt.Sprintf(`"%s"`, s)\<close> puts \<open>s\<close> between two double quotes (0x22), and the
  replacement writes a backslash (0x5C) before each double quote.
\<close>

definition fieldDefault :: "textfuns \<Rightarrow> FieldDescriptorProto \<Rightarrow> error + string" where
  "fieldDefault tf field =
     rbind
       (let defV = GetString (fd_DefaultValue field) in
        if GetType field = TYPE_STRING then
          Inr ([CHR 0x22] @ ReplaceByte defV (CHR 0x22) [CHR 0x5C, CHR 0x22] @ [CHR 0x22])
        else if GetType field = TYPE_BOOL then
          if length defV < 1 then Inl (SliceBoundsOutOfRange 1 (length defV))
          else Inr (ToUpper1 (take 1 defV) @ drop 1 defV)
        else Inr defV)
       (\<lambda>defV. if defV = [] then BasicFieldDefaultValue tf field else Inr defV)"

definition isOptional :: "FieldDescriptorProto \<Rightarrow> bool" where
  "isOptional inField \<longleftrightarrow> GetLabel inField = LABEL_OPTIONAL \<and> GetType inField = TYPE_MESSAGE"

definition isRepeated :: "FieldDescriptorProto \<Rightarrow> bool" where
  "isRepeated inField \<longleftrightarrow> GetLabel inField = LABEL_REPEATED"

text \<open>\<^verbatim>\<open>strings.Split\<close> returns at least one string, so the last one exists.\<close>

definition getLocalType :: "string \<Rightarrow> string" where
  "getLocalType fullyQualifiedTypeName = last (Split fullyQualifiedTypeName CHR ''.'')"

definition getNestedType :: "FieldDescriptorProto \<Rightarrow> DescriptorProto \<Rightarrow> DescriptorProto option" where
  "getNestedType inField inMessage =
     (let localTypeName = getLocalType (GetString (fd_TypeName inField))
      in List.find (\<lambda>nested. GetString (md_Name nested) = localTypeName \<and> GetMapEntry nested)
           (md_NestedType inMessage))"

definition appendField :: "TypeAlias \<Rightarrow> TypeAliasField \<Rightarrow> TypeAlias" where
  "appendField alias field =
     alias\<lparr>ta_Fields := ta_Fields alias @ [field],
           ta_FieldEncoders := ta_FieldEncoders alias @ [field]\<rparr>"

text \<open>
  The element that the loop over the fields appends to \<^verbatim>\<open>alias.FieldEncoders\<close> for a
  field of a oneof. Fields that a struct literal leaves out have Go's zero value.
\<close>

definition oneofEncoderField ::
  "textfuns \<Rightarrow> string list \<Rightarrow> OneofDescriptorProto \<Rightarrow> FieldDescriptorProto \<Rightarrow> TypeAliasField" where
  "oneofEncoderField tf nestedPreface oneof fieldPb =
     (let typeName = OneOfType (NestedType tf (GetString (od_Name oneof)) nestedPreface)
      in \<lparr>taf_Name = FieldName tf (GetString (od_Name oneof)),
          taf_Type = typeName,
          taf_Number = GetInt32 (fd_Number fieldPb),
          taf_Default = [],
          taf_Decoder = [],
          taf_Encoder = OneOfEncoder tf oneof fieldPb typeName\<rparr>)"

text \<open>
  The body of the loop over the fields in \<^verbatim>\<open>messages\<close>, for a field that the loop
  keeps (\<open>keptFields\<close>).
\<close>

definition messageField ::
  "textfuns \<Rightarrow> string list \<Rightarrow> DescriptorProto \<Rightarrow> TypeAlias \<Rightarrow> FieldDescriptorProto \<Rightarrow> error + TypeAlias" where
  "messageField tf nestedPreface messagePb alias fieldPb =
     (if fd_OneofIndex fieldPb \<noteq> None then
        rbind (index (md_OneofDecl messagePb) (GetInt32 (fd_OneofIndex fieldPb))) (\<lambda>oneof.
          Inr (alias\<lparr>ta_FieldEncoders := ta_FieldEncoders alias
                        @ [oneofEncoderField tf nestedPreface oneof fieldPb]\<rparr>))
      else
        case getNestedType fieldPb messagePb of
          Some nested \<Rightarrow>
            rbind (MapType tf nested) (\<lambda>t.
            rbind (MapEncoder tf fieldPb nested) (\<lambda>enc.
            rbind (MapDecoder tf fieldPb nested) (\<lambda>dec.
              Inr (appendField alias
                    \<lparr>taf_Name = FieldName tf (GetString (fd_Name fieldPb)),
                     taf_Type = t,
                     taf_Number = GetInt32 (fd_Number fieldPb),
                     taf_Default = ''Nothing'',
                     taf_Decoder = dec,
                     taf_Encoder = enc\<rparr>))))
        | None \<Rightarrow>
            if isOptional fieldPb then
              rbind (BasicFieldType tf fieldPb) (\<lambda>t.
              rbind (fieldDefault tf fieldPb) (\<lambda>def.
              rbind (MaybeEncoder tf fieldPb) (\<lambda>enc.
              rbind (MaybeDecoder tf fieldPb) (\<lambda>dec.
                Inr (appendField alias
                      \<lparr>taf_Name = FieldName tf (GetString (fd_Name fieldPb)),
                       taf_Type = MaybeType t,
                       taf_Number = GetInt32 (fd_Number fieldPb),
                       taf_Default = def,
                       taf_Decoder = dec,
                       taf_Encoder = enc\<rparr>)))))
            else if isRepeated fieldPb then
              rbind (BasicFieldType tf fieldPb) (\<lambda>t.
              rbind (ListEncoder tf fieldPb) (\<lambda>enc.
              rbind (ListDecoder tf fieldPb) (\<lambda>dec.
                Inr (appendField alias
                      \<lparr>taf_Name = FieldName tf (GetString (fd_Name fieldPb)),
                       taf_Type = ListType t,
                       taf_Number = GetInt32 (fd_Number fieldPb),
                       taf_Default = ''[]'',
                       taf_Decoder = dec,
                       taf_Encoder = enc\<rparr>))))
            else
              rbind (BasicFieldType tf fieldPb) (\<lambda>t.
              rbind (fieldDefault tf fieldPb) (\<lambda>def.
              rbind (RequiredFieldEncoder tf fieldPb) (\<lambda>enc.
              rbind (RequiredFieldDecoder tf fieldPb) (\<lambda>dec.
                Inr (appendField alias
                      \<lparr>taf_Name = FieldName tf (GetString (fd_Name fieldPb)),
                       taf_Type = t,
                       taf_Number = GetInt32 (fd_Number fieldPb),
                       taf_Default = def,
                       taf_Decoder = dec,
                       taf_Encoder = enc\<rparr>))))))"

fun messageFields ::
  "textfuns \<Rightarrow> string list \<Rightarrow> DescriptorProto \<Rightarrow> TypeAlias \<Rightarrow> FieldDescriptorProto list \<Rightarrow> error + TypeAlias" where
  "messageFields tf nestedPreface messagePb alias [] = Inr alias"
| "messageFields tf nestedPreface messagePb alias (fieldPb # rest) =
     rbind (messageField tf nestedPreface messagePb alias fieldPb) (\<lambda>alias'.
       messageFields tf nestedPreface messagePb alias' rest)"

text \<open>The field that the second loop of \<^verbatim>\<open>messages\<close> appends for a oneof declaration.\<close>

definition oneofField :: "textfuns \<Rightarrow> string list \<Rightarrow> OneofDescriptorProto \<Rightarrow> TypeAliasField" where
  "oneofField tf nestedPreface oneOfPb =
     (let typeName = OneOfType (NestedType tf (GetString (od_Name oneOfPb)) nestedPreface)
      in \<lparr>taf_Name = FieldName tf (GetString (od_Name oneOfPb)),
          taf_Type = typeName,
          taf_Number = 0,
          taf_Default = typeName @ ''Unspecified'',
          taf_Decoder = OneOfDecoder tf oneOfPb typeName,
          taf_Encoder = []\<rparr>)"

lemma rbind_cong [fundef_cong]:
  "m = m' \<Longrightarrow> (\<And>x. m' = Inr x \<Longrightarrow> f x = g x) \<Longrightarrow> rbind m f = rbind m' g"
  by (cases m') (simp_all add: rbind_def)

lemma forEach_cong [fundef_cong]:
  "xs = ys \<Longrightarrow> (\<And>x. x \<in> set ys \<Longrightarrow> f x = g x) \<Longrightarrow> forEach f xs = forEach g ys"
  by (induction ys arbitrary: xs) simp_all

lemma size_NestedType_less:
  "messagePb \<in> set messagePbs \<Longrightarrow> size_list size (md_NestedType messagePb) < size_list size messagePbs"
proof -
  assume "messagePb \<in> set messagePbs"
  then have "size messagePb \<le> size_list size messagePbs"
    by (induction messagePbs) auto
  moreover have "size_list size (md_NestedType messagePb) < size messagePb"
    by (cases messagePb) simp
  ultimately show ?thesis
    by simp
qed

text \<open>
  \<^verbatim>\<open>sort.Slice\<close> by \<^verbatim>\<open>Number\<close> is \<open>sort_key\<close>. Go's sort is not stable; the two
  agree whenever the numbers are distinct (any sort has the same result then), and on
  lists of at most twelve elements, which Go sorts by insertion as \<open>sort_key\<close> does.
  \<^verbatim>\<open>append([]string{messagePb.GetName()}, preface...)\<close> puts the name of the message
  before the elements of \<^verbatim>\<open>preface\<close>.
\<close>

function messages ::
  "textfuns \<Rightarrow> string list \<Rightarrow> DescriptorProto list \<Rightarrow> parameters \<Rightarrow> error + pbMessage list" where
  "messages tf preface messagePbs p =
     forEach (\<lambda>messagePb.
       if isDeprecated (OfMessage (md_Options messagePb)) \<and> RemoveDeprecated p then Inr None
       else
         let name = NestedType tf (GetString (md_Name messagePb)) preface;
             nestedPreface = GetString (md_Name messagePb) # preface;
             alias = \<lparr>ta_Name = name,
                      ta_Decoder = DecoderName tf name,
                      ta_Encoder = EncoderName tf name,
                      ta_FieldEncoders = [],
                      ta_Fields = []\<rparr>
         in rbind (messageFields tf nestedPreface messagePb alias (keptFields messagePb p))
              (\<lambda>alias.
            let alias = alias\<lparr>ta_FieldEncoders := sort_key taf_Number (ta_FieldEncoders alias)\<rparr>;
                alias = alias\<lparr>ta_Fields := ta_Fields alias
                          @ map (oneofField tf nestedPreface) (md_OneofDecl messagePb)\<rparr>
            in rbind (oneOfsToCustomTypes tf nestedPreface messagePb p) (\<lambda>oneOfCustomTypes.
               rbind (enumsToCustomTypes tf nestedPreface (md_EnumType messagePb) p) (\<lambda>enumCustomTypes.
               rbind (messages tf nestedPreface (md_NestedType messagePb) p) (\<lambda>nestedMessages.
                 Inr (Some (pbMessage alias oneOfCustomTypes enumCustomTypes nestedMessages)))))))
       messagePbs"
  by pat_completeness auto
termination
  by (relation "measure (\<lambda>(tf, preface, messagePbs, p). size_list size messagePbs)")
     (auto simp: size_NestedType_less)

declare messages.simps [simp del]

section \<open>One file, and the batch (\<^verbatim>\<open>templateFile\<close> and \<^verbatim>\<open>main\<close>)\<close>

record FileDescriptorProto =
  fdp_Name :: "string option"
  fdp_Dependency :: "string list"
  fdp_MessageType :: "DescriptorProto list"
  fdp_EnumType :: "EnumDescriptorProto list"

text \<open>
  The package variable \<^verbatim>\<open>excludedFiles\<close> is a Go map from file names to
  \<^verbatim>\<open>bool\<close>; reading a missing key gives \<^verbatim>\<open>false\<close>. It is the only mutable state
  of the program that outlives a call. \<^verbatim>\<open>parseParameters\<close> writes it, and so takes and
  returns it; \<^verbatim>\<open>additionalImports\<close> and the loop of \<^verbatim>\<open>main\<close> read it, and so take
  it; no other function touches it.
\<close>

type_synonym excluded = "string \<rightharpoonup> bool"

definition isExcluded :: "excluded \<Rightarrow> string \<Rightarrow> bool" where
  "isExcluded m k = (case m k of None \<Rightarrow> False | Some b \<Rightarrow> b)"


text \<open>
  One parameter of the request: \<^verbatim>\<open>v[0]\<close> panics when the parameter has no
  \<^verbatim>\<open>=\<close>. An unknown name sets \<^verbatim>\<open>err\<close> and the loop goes on.
\<close>

definition parseParameter ::
  "parameters \<times> string option \<times> excluded \<Rightarrow> string \<Rightarrow> error + parameters \<times> string option \<times> excluded" where
  "parseParameter st v =
     (case st of (result, err, excl) \<Rightarrow>
        let parts = Split v CHR ''='';
            name = hd parts;
            v = tl parts
        in if name = ''remove-deprecated'' then Inr (result\<lparr>RemoveDeprecated := True\<rparr>, err, excl)
           else if name = ''debug'' then Inr (result\<lparr>Debug := True\<rparr>, err, excl)
           else if name = ''module-prefix'' then
             rbind (index v 0) (\<lambda>v0. Inr (result\<lparr>modPrefix := v0\<rparr>, err, excl))
           else if name = ''exclude'' then
             rbind (index v 0) (\<lambda>v0. Inr (result, err, excl(v0 \<mapsto> True)))
           else Inr (result, Some name, excl))"

fun parseParameterList ::
  "parameters \<times> string option \<times> excluded \<Rightarrow> string list \<Rightarrow> error + parameters \<times> string option \<times> excluded" where
  "parseParameterList st [] = Inr st"
| "parseParameterList st (v # vs) = rbind (parseParameter st v) (\<lambda>st'. parseParameterList st' vs)"

definition parseParameters ::
  "excluded \<Rightarrow> string option \<Rightarrow> error + parameters \<times> string option \<times> excluded" where
  "parseParameters excl input =
     (let result = \<lparr>Version = False, Debug = False, RemoveDeprecated = False, modPrefix = []\<rparr>
      in case input of
           None \<Rightarrow> Inr (result, None, excl)
         | Some s \<Rightarrow> parseParameterList (result, None, excl) (Split s CHR '',''))"

lemma size_nested_member:
  "x \<in> set (md_NestedType inMessage) \<Longrightarrow> size x < size inMessage"
proof -
  assume "x \<in> set (md_NestedType inMessage)"
  then have "size x \<le> size_list size (md_NestedType inMessage)"
    by (induction "md_NestedType inMessage" arbitrary: x) (auto simp: size_list_estimation')
  moreover have "size_list size (md_NestedType inMessage) < size inMessage"
    by (cases inMessage) simp
  ultimately show ?thesis by simp
qed

function hasMapEntriesInMessage :: "DescriptorProto \<Rightarrow> bool" where
  "hasMapEntriesInMessage inMessage \<longleftrightarrow>
     GetMapEntry inMessage \<or> list_ex hasMapEntriesInMessage (md_NestedType inMessage)"
  by pat_completeness auto
termination
  by (relation "measure size") (auto simp: size_nested_member)

definition hasMapEntries :: "FileDescriptorProto \<Rightarrow> bool" where
  "hasMapEntries inFile \<longleftrightarrow> list_ex hasMapEntriesInMessage (fdp_MessageType inFile)"

text \<open>\<^verbatim>\<open>filepath.Split\<close>, with \<^verbatim>\<open>/\<close> as the separator: the directory keeps its last
  \<^verbatim>\<open>/\<close>, and the file is what follows it.\<close>

definition filepath_Split :: "string \<Rightarrow> string \<times> string" where
  "filepath_Split path =
     (let file = last (Split path CHR ''/'')
      in (take (length path - length file) path, file))"

definition fileName :: "textfuns \<Rightarrow> string \<Rightarrow> string" where
  "fileName tf inFilePath =
     (case filepath_Split inFilePath of (inFileDir, inFileName) \<Rightarrow>
        let trimmed = TrimSuffix inFileName ''.proto'';
            shortFileName = FirstUpper tf trimmed;
            fullFileName =
              concat (map (\<lambda>segment. FirstUpper tf segment @ ''/'')
                        (filter (\<lambda>segment. segment \<noteq> []) (Split inFileDir CHR ''/'')))
        in fullFileName @ shortFileName @ ''.elm'')"

definition moduleName :: "textfuns \<Rightarrow> string \<Rightarrow> string \<Rightarrow> string" where
  "moduleName tf prefix inFilePath =
     (case filepath_Split inFilePath of (inFileDir, inFileName) \<Rightarrow>
        let trimmed = TrimSuffix inFileName ''.proto'';
            shortModuleName = FirstUpper tf trimmed;
            path = Split inFileDir CHR ''/'';
            path = (if prefix \<noteq> [] then Split prefix CHR ''.'' @ path else path);
            final = map (FirstUpper tf) (filter (\<lambda>segment. segment \<noteq> []) path)
        in Join (final @ [shortModuleName]) ''.'')"

definition additionalImports :: "textfuns \<Rightarrow> excluded \<Rightarrow> string \<Rightarrow> string list \<Rightarrow> string list" where
  "additionalImports tf excl prefix dependencies =
     map (\<lambda>d. Join (Split prefix CHR ''.''
                      @ map (FirstUpper tf)
                          (filter (\<lambda>segment. segment \<noteq> [])
                             (Split (TrimSuffix d ''.proto'') CHR ''/''))) ''.'')
       (filter (\<lambda>d. \<not> isExcluded excl d) dependencies)"

text \<open>
  What \<^verbatim>\<open>templateFile\<close> hands to the template: the model of one file. The text that
  the template writes from it is outside this development, but for the two lists of
  the preceding section.
\<close>

record fileModel =
  SourceFile :: string
  ModuleName :: string
  ImportDict :: bool
  AdditionalImports :: "string list"
  TopEnums :: "EnumCustomType list"
  Messages :: "pbMessage list"

definition templateFile ::
  "textfuns \<Rightarrow> excluded \<Rightarrow> FileDescriptorProto \<Rightarrow> parameters \<Rightarrow> error + fileModel" where
  "templateFile tf excl inFile p =
     rbind (enumsToCustomTypes tf [] (fdp_EnumType inFile) p) (\<lambda>topEnums.
     rbind (messages tf [] (fdp_MessageType inFile) p) (\<lambda>msgs.
       Inr \<lparr>SourceFile = GetString (fdp_Name inFile),
            ModuleName = moduleName tf (modPrefix p) (GetString (fdp_Name inFile)),
            ImportDict = hasMapEntries inFile,
            AdditionalImports = additionalImports tf excl (modPrefix p) (fdp_Dependency inFile),
            TopEnums = topEnums,
            Messages = msgs\<rparr>))"

text \<open>The loop of \<^verbatim>\<open>main\<close> over the files of the request, and \<^verbatim>\<open>main\<close> from the
  parameters on: an error of \<^verbatim>\<open>parseParameters\<close> ends the run before any file.\<close>

definition generate ::
  "textfuns \<Rightarrow> excluded \<Rightarrow> parameters \<Rightarrow> FileDescriptorProto list \<Rightarrow> error + (string \<times> fileModel) list" where
  "generate tf excl p files =
     forEach (\<lambda>inFile.
       if isExcluded excl (GetString (fdp_Name inFile)) then Inr None
       else
         let name = fileName tf (GetString (fdp_Name inFile))
         in rbind (templateFile tf excl inFile p) (\<lambda>content. Inr (Some (name, content))))
       files"

definition run ::
  "textfuns \<Rightarrow> excluded \<Rightarrow> string option \<Rightarrow> FileDescriptorProto list \<Rightarrow> error + (string \<times> fileModel) list" where
  "run tf excl0 parameter files =
     rbind (parseParameters excl0 parameter) (\<lambda>(p, err, excl).
       case err of
         Some name \<Rightarrow> Inl (UnknownParameter name)
       | None \<Rightarrow> generate tf excl p files)"

section \<open>What the generated oneof decoder does\<close>

text \<open>
  The generated decoder reads a message that JavaScript keeps as an array; a slot of the
  array is \<^verbatim>\<open>null\<close> (\<open>None\<close>) or holds a value. In Elm's \<^verbatim>\<open>Json.Decode\<close>,
  \<^verbatim>\<open>JD.index i d\<close> fails when the array has no slot \<open>i\<close> and runs \<open>d\<close> on the slot
  otherwise; \<^verbatim>\<open>failOnNull d\<close>, which the template of \<^verbatim>\<open>main.go\<close> defines, fails on
  \<^verbatim>\<open>null\<close> and runs \<open>d\<close> otherwise; \<^verbatim>\<open>JD.succeed v\<close> gives \<open>v\<close>; and \<^verbatim>\<open>JD.oneOf\<close>
  gives the result of the first decoder of its list that does not fail. The decoders
  that the classifier names are parameters (\<open>named\<close>): a decoder may fail (\<open>None\<close>).
\<close>

datatype 'a oneof_value = Unspecified string | Variant VariantName 'a

fun runAlternative ::
  "(VariableName \<Rightarrow> 'j \<Rightarrow> 'a option) \<Rightarrow> 'j option list \<Rightarrow> decoder_alternative \<Rightarrow> 'a oneof_value option" where
  "runAlternative named wire (MapIndexFailOnNull name idx decoder) =
     (if 0 \<le> idx \<and> idx < int (length wire) then
        (case wire ! nat idx of
           None \<Rightarrow> None
         | Some j \<Rightarrow> map_option (Variant name) (named decoder j))
      else None)"
| "runAlternative named wire (Succeed v) = Some (Unspecified v)"

fun JD_oneOf :: "('d \<Rightarrow> 'r option) \<Rightarrow> 'd list \<Rightarrow> 'r option" where
  "JD_oneOf runD [] = None"
| "JD_oneOf runD (d # ds) = (case runD d of Some r \<Rightarrow> Some r | None \<Rightarrow> JD_oneOf runD ds)"

definition runOneOfDecoder ::
  "(VariableName \<Rightarrow> 'j \<Rightarrow> 'a option) \<Rightarrow> OneOfCustomType \<Rightarrow> 'j option list \<Rightarrow> 'a oneof_value option" where
  "runOneOfDecoder named t wire = JD_oneOf (runAlternative named wire) (oneOfDecoderAlternatives t)"

section \<open>What the loop over the fields appends for a field\<close>

text \<open>
  \<open>encoderSlot tf nestedPreface messagePb fieldPb slot\<close>: \<open>slot\<close> bears the number of the
  field, and for a field of a oneof it is the element \<open>oneofEncoderField\<close> built from the
  oneof declaration that the field's index names.
\<close>

definition encoderSlot ::
  "textfuns \<Rightarrow> string list \<Rightarrow> DescriptorProto \<Rightarrow> FieldDescriptorProto \<Rightarrow> TypeAliasField \<Rightarrow> bool" where
  "encoderSlot tf nestedPreface messagePb fieldPb slot \<longleftrightarrow>
     taf_Number slot = FieldNum fieldPb
     \<and> (\<forall>k. fd_OneofIndex fieldPb = Some k \<longrightarrow>
            0 \<le> k \<and> k < int (length (md_OneofDecl messagePb))
            \<and> slot = oneofEncoderField tf nestedPreface (md_OneofDecl messagePb ! nat k) fieldPb)"

section \<open>The messages that the walk reaches\<close>


section \<open>An instance of the string helpers, to evaluate the model\<close>

text \<open>
  Modelled from the spec: package \<^verbatim>\<open>stringextras\<close> (\<^verbatim>\<open>FirstUpper\<close>,
  \<^verbatim>\<open>FirstLower\<close>, \<^verbatim>\<open>CamelCase\<close>, \<^verbatim>\<open>LowerCamelCase\<close>) is not among the sources.
  The spec (4.1) says that a name is converted "to the target casing convention" and starts
  "with the casing required for a type (upper) or a variable (lower)". The instance below
  does that on ASCII: \<open>CamelCase\<close> drops each underscore and upper-cases the letter after
  it and the first letter. \<open>ToLower\<close> and \<open>IsLowerFirstRune\<close> are Go's functions on
  ASCII. The instance only serves to evaluate the model on concrete descriptors.
\<close>

definition asciiUpper :: "char \<Rightarrow> char" where
  "asciiUpper c =
     (case map_of (zip ''abcdefghijklmnopqrstuvwxyz'' ''ABCDEFGHIJKLMNOPQRSTUVWXYZ'') c of
        Some u \<Rightarrow> u | None \<Rightarrow> c)"

definition asciiLower :: "char \<Rightarrow> char" where
  "asciiLower c =
     (case map_of (zip ''ABCDEFGHIJKLMNOPQRSTUVWXYZ'' ''abcdefghijklmnopqrstuvwxyz'') c of
        Some l \<Rightarrow> l | None \<Rightarrow> c)"

definition asciiFirstUpper :: "string \<Rightarrow> string" where
  "asciiFirstUpper s = (case s of [] \<Rightarrow> [] | c # cs \<Rightarrow> asciiUpper c # cs)"

definition asciiFirstLower :: "string \<Rightarrow> string" where
  "asciiFirstLower s = (case s of [] \<Rightarrow> [] | c # cs \<Rightarrow> asciiLower c # cs)"

definition asciiCamelCase :: "string \<Rightarrow> string" where
  "asciiCamelCase s = concat (map asciiFirstUpper (Split s CHR ''_''))"

definition asciiText :: textfuns where
  "asciiText =
     \<lparr>FirstUpper = asciiFirstUpper,
      FirstLower = asciiFirstLower,
      CamelCase = asciiCamelCase,
      LowerCamelCase = (\<lambda>s. asciiFirstLower (asciiCamelCase s)),
      ToLower = map asciiLower,
      IsLowerFirstRune = (\<lambda>s. case s of [] \<Rightarrow> False
                                 | c # _ \<Rightarrow> c \<in> set ''abcdefghijklmnopqrstuvwxyz'')\<rparr>"

text \<open>Descriptors as \<^verbatim>\<open>protoc\<close> builds them, for the examples.\<close>

definition field :: "string \<Rightarrow> int \<Rightarrow> FieldDescriptorProto_Type \<Rightarrow> FieldDescriptorProto" where
  "field name number kind =
     \<lparr>fd_Name = Some name, fd_Number = Some number, fd_Label = Some LABEL_OPTIONAL,
      fd_Type = Some kind, fd_TypeName = None, fd_DefaultValue = None,
      fd_OneofIndex = None, fd_Options = None\<rparr>"

definition message :: "string \<Rightarrow> FieldDescriptorProto list \<Rightarrow> DescriptorProto" where
  "message name fs = DescriptorProto (Some name) fs [] [] [] None"

definition noParameters :: parameters where
  "noParameters = \<lparr>Version = False, Debug = False, RemoveDeprecated = False, modPrefix = []\<rparr>"

definition removeDeprecated :: parameters where
  "removeDeprecated = noParameters\<lparr>RemoveDeprecated := True\<rparr>"






text \<open>An enum whose first value is deprecated, an enum without values, and the latter
  marked deprecated.\<close>

definition enumValue :: "string \<Rightarrow> int \<Rightarrow> bool \<Rightarrow> EnumValueDescriptorProto" where
  "enumValue name number deprecated =
     \<lparr>evd_Name = Some name, evd_Number = Some number,
      evd_Options = (if deprecated then Some \<lparr>evo_Deprecated = Some True\<rparr> else None)\<rparr>"

definition colour :: EnumDescriptorProto where
  "colour =
     \<lparr>ed_Name = Some ''Colour'',
      ed_Value = [enumValue ''RED'' 0 True, enumValue ''GREEN'' 1 False, enumValue ''BLUE'' 2 False],
      ed_Options = None\<rparr>"

definition emptyEnum :: EnumDescriptorProto where
  "emptyEnum = \<lparr>ed_Name = Some ''Empty'', ed_Value = [], ed_Options = None\<rparr>"

definition deprecatedEmptyEnum :: EnumDescriptorProto where
  "deprecatedEmptyEnum = emptyEnum\<lparr>ed_Options := Some \<lparr>eo_Deprecated = Some True\<rparr>\<rparr>"

text \<open>Messages with fields numbered 1, 3 and 5, with one field numbered 4, with two fields
  numbered 2, and with a oneof \<^verbatim>\<open>kind\<close> of two fields and a plain field.\<close>

definition gaps :: DescriptorProto where
  "gaps = message ''Gaps'' [field ''a'' 1 TYPE_INT32, field ''c'' 5 TYPE_STRING, field ''b'' 3 TYPE_INT64]"

definition single4 :: DescriptorProto where
  "single4 = message ''Single'' [field ''d'' 4 TYPE_BOOL\<lparr>fd_DefaultValue := Some ''false''\<rparr>]"

definition twice2 :: DescriptorProto where
  "twice2 = message ''Twice'' [field ''a'' 2 TYPE_INT32, field ''b'' 2 TYPE_INT32]"

definition withOneof :: DescriptorProto where
  "withOneof =
     DescriptorProto (Some ''Shape'')
       [(field ''radius'' 1 TYPE_INT32)\<lparr>fd_OneofIndex := Some 0\<rparr>,
        field ''label'' 2 TYPE_STRING,
        (field ''side'' 3 TYPE_INT32)\<lparr>fd_OneofIndex := Some 0\<rparr>]
       [] [] [\<lparr>od_Name = Some ''kind''\<rparr>] None"

text \<open>A message \<^verbatim>\<open>A\<close> with a nested message \<^verbatim>\<open>B\<close>, which has a nested message
  \<^verbatim>\<open>C\<close> and a field of type \<^verbatim>\<open>.A.B.C\<close>.\<close>

definition nestedABC :: DescriptorProto where
  "nestedABC =
     DescriptorProto (Some ''A'') []
       [DescriptorProto (Some ''B'')
          [(field ''c'' 1 TYPE_MESSAGE)\<lparr>fd_TypeName := Some ''.A.B.C''\<rparr>]
          [message ''C'' []] [] [] None]
       [] [] None"

section \<open>The walk, one message at a time\<close>

text \<open>
  The loop of \<^verbatim>\<open>messages\<close> treats each message on its own: the result for a list is
  the results for its messages, one after the other, and the first panic ends the walk.
  A statement about \<open>messages tf preface [messagePb] p\<close> is therefore a statement about
  every message that the walk reaches, \<open>preface\<close> being the names of the enclosing
  messages.
\<close>

lemma forEach_Cons_single:
  "forEach body (x # xs) =
     rbind (forEach body [x]) (\<lambda>r. rbind (forEach body xs) (\<lambda>rs. Inr (r @ rs)))"
  by (cases "body x"; cases "forEach body xs") (auto simp: rbind_def split: option.splits)




section \<open>Panics end the run\<close>



lemma forEach_isl: "isl (forEach body xs) \<longleftrightarrow> (\<exists>x\<in>set xs. isl (body x))"
  by (induction xs) (auto simp: rbind_def split: sum.splits)














section \<open>The classifier\<close>




text \<open>
  Claim C8, as amended. Every 64-bit integer kind gets the encoder
  \<^verbatim>\<open>numericStringEncoder\<close> and the decoder \<^verbatim>\<open>intDecoder\<close>; every 32-bit integer kind
  gets the direct encoder \<^verbatim>\<open>JE.int\<close> and the same decoder \<^verbatim>\<open>intDecoder\<close>; both get
  the type \<^verbatim>\<open>Int\<close>. The two groups differ in the encoder only.
\<close>

theorem C8_integer_codecs:
  "(GetType f \<in> {TYPE_INT64, TYPE_UINT64, TYPE_SINT64, TYPE_FIXED64, TYPE_SFIXED64} \<longrightarrow>
      BasicFieldEncoder tf f = Inr ''numericStringEncoder'' \<and>
      BasicFieldDecoder tf f = Inr ''intDecoder'' \<and>
      BasicFieldType tf f = Inr ''Int'') \<and>
   (GetType f \<in> {TYPE_INT32, TYPE_UINT32, TYPE_SINT32, TYPE_FIXED32, TYPE_SFIXED32} \<longrightarrow>
      BasicFieldEncoder tf f = Inr ''JE.int'' \<and>
      BasicFieldDecoder tf f = Inr ''intDecoder'' \<and>
      BasicFieldType tf f = Inr ''Int'')"
  by (auto simp: BasicFieldEncoder_def BasicFieldDecoder_def BasicFieldType_def intType_def
        Let_def kind_defs)

theorem C8_integer_codecs_witness:
  "GetType (field ''big'' 1 TYPE_UINT64)
     \<in> {TYPE_INT64, TYPE_UINT64, TYPE_SINT64, TYPE_FIXED64, TYPE_SFIXED64}
   \<and> BasicFieldEncoder asciiText (field ''big'' 1 TYPE_UINT64) = Inr ''numericStringEncoder''
   \<and> BasicFieldDecoder asciiText (field ''big'' 1 TYPE_UINT64) = Inr ''intDecoder''
   \<and> BasicFieldType asciiText (field ''big'' 1 TYPE_UINT64) = Inr ''Int''
   \<and> GetType (field ''small'' 2 TYPE_SFIXED32)
     \<in> {TYPE_INT32, TYPE_UINT32, TYPE_SINT32, TYPE_FIXED32, TYPE_SFIXED32}
   \<and> BasicFieldEncoder asciiText (field ''small'' 2 TYPE_SFIXED32) = Inr ''JE.int''
   \<and> BasicFieldDecoder asciiText (field ''small'' 2 TYPE_SFIXED32) = Inr ''intDecoder''
   \<and> BasicFieldType asciiText (field ''small'' 2 TYPE_SFIXED32) = Inr ''Int''"
proof -
  have a: "GetType (field ''big'' 1 TYPE_UINT64) = TYPE_UINT64"
    by (simp add: field_def GetType_def)
  have b: "GetType (field ''small'' 2 TYPE_SFIXED32) = TYPE_SFIXED32"
    by (simp add: field_def GetType_def)
  show ?thesis
    using C8_integer_codecs [of "field ''big'' 1 TYPE_UINT64" asciiText]
      C8_integer_codecs [of "field ''small'' 2 TYPE_SFIXED32" asciiText]
    by (simp add: a b)
qed

text \<open>
  The claim as stated fails: a 32-bit kind and a 64-bit kind get one and the same
  decoder, which is not the direct decoder \<^verbatim>\<open>JD.int\<close>.
\<close>

theorem C8_same_decoder_counterexample:
  "BasicFieldDecoder asciiText (field ''n'' 1 TYPE_INT32) = Inr ''intDecoder''
   \<and> BasicFieldDecoder asciiText (field ''n'' 1 TYPE_INT64) = Inr ''intDecoder''
   \<and> BasicFieldDecoder asciiText (field ''n'' 1 TYPE_INT32) \<noteq> Inr ''JD.int''"
  by (simp add: BasicFieldDecoder_def field_def GetType_def kind_defs)

section \<open>Enums\<close>

lemma forEach_Inl: "forEach body xs = Inl e \<Longrightarrow> \<exists>x\<in>set xs. body x = Inl e"
  by (induction xs) (auto simp: rbind_def split: sum.splits)

lemma keptValues_Nil_iff:
  "keptValues enumPb p = [] \<longleftrightarrow>
     ed_Value enumPb = []
     \<or> (RemoveDeprecated p \<and> (\<forall>v\<in>set (ed_Value enumPb). isDeprecated (OfEnumValue (evd_Options v))))"
  by (cases "ed_Value enumPb") (auto simp: keptValues_def filter_empty_conv)

lemma enumsToCustomTypes_isl:
  "isl (enumsToCustomTypes tf preface enumPbs p) \<longleftrightarrow>
     (\<exists>e\<in>set enumPbs. \<not> (isDeprecated (OfEnum (ed_Options e)) \<and> RemoveDeprecated p)
        \<and> keptValues e p = [])"
  unfolding enumsToCustomTypes_def forEach_isl
  by (auto simp: rbind_def index_def Let_def split: sum.splits if_splits)

lemma enumsToCustomTypes_Inl:
  "enumsToCustomTypes tf preface enumPbs p = Inl e \<Longrightarrow> e = IndexOutOfRange 0 0"
  unfolding enumsToCustomTypes_def
  by (drule forEach_Inl) (auto simp: rbind_def index_def Let_def split: sum.splits if_splits)

text \<open>
  Claim C10, as amended. \<^verbatim>\<open>enumsToCustomTypes\<close> returns only when every enum that it
  does not skip keeps a value: for every enum of the list that is not skipped (it is not
  deprecated, or deprecated elements are not removed) and that declares no value, or
  whose values are all deprecated while deprecated elements are removed, the conversion
  panics with an index out of range (\<^verbatim>\<open>values[0]\<close> on the empty list); and when every
  enum of the list is skipped or keeps a value, it returns.
\<close>

theorem C10_enum_without_surviving_variant_panics:
  "(enumPb \<in> set enumPbs
      \<and> \<not> (isDeprecated (OfEnum (ed_Options enumPb)) \<and> RemoveDeprecated p)
      \<and> (ed_Value enumPb = []
          \<or> (RemoveDeprecated p
              \<and> (\<forall>v\<in>set (ed_Value enumPb). isDeprecated (OfEnumValue (evd_Options v)))))
    \<longrightarrow> enumsToCustomTypes tf preface enumPbs p = Inl (IndexOutOfRange 0 0))
   \<and> ((\<forall>e\<in>set enumPbs. (isDeprecated (OfEnum (ed_Options e)) \<and> RemoveDeprecated p)
                          \<or> keptValues e p \<noteq> [])
    \<longrightarrow> (\<exists>out. enumsToCustomTypes tf preface enumPbs p = Inr out))"
proof (intro conjI impI)
  assume a: "enumPb \<in> set enumPbs
      \<and> \<not> (isDeprecated (OfEnum (ed_Options enumPb)) \<and> RemoveDeprecated p)
      \<and> (ed_Value enumPb = []
          \<or> (RemoveDeprecated p
              \<and> (\<forall>v\<in>set (ed_Value enumPb). isDeprecated (OfEnumValue (evd_Options v)))))"
  then have "keptValues enumPb p = []"
    unfolding keptValues_Nil_iff by blast
  with a have "isl (enumsToCustomTypes tf preface enumPbs p)"
    unfolding enumsToCustomTypes_isl by blast
  then obtain e where "enumsToCustomTypes tf preface enumPbs p = Inl e"
    by (cases "enumsToCustomTypes tf preface enumPbs p") simp_all
  then show "enumsToCustomTypes tf preface enumPbs p = Inl (IndexOutOfRange 0 0)"
    using enumsToCustomTypes_Inl by blast
next
  assume "\<forall>e\<in>set enumPbs. (isDeprecated (OfEnum (ed_Options e)) \<and> RemoveDeprecated p)
                          \<or> keptValues e p \<noteq> []"
  then have "\<not> isl (enumsToCustomTypes tf preface enumPbs p)"
    unfolding enumsToCustomTypes_isl by blast
  then show "\<exists>out. enumsToCustomTypes tf preface enumPbs p = Inr out"
    by (cases "enumsToCustomTypes tf preface enumPbs p") simp_all
qed

theorem C10_enum_without_surviving_variant_panics_witness:
  "emptyEnum \<in> set [colour, emptyEnum]
   \<and> \<not> (isDeprecated (OfEnum (ed_Options emptyEnum)) \<and> RemoveDeprecated removeDeprecated)
   \<and> ed_Value emptyEnum = []
   \<and> enumsToCustomTypes asciiText [] [colour, emptyEnum] removeDeprecated
       = Inl (IndexOutOfRange 0 0)
   \<and> isDeprecated (OfEnum (ed_Options deprecatedEmptyEnum))
   \<and> RemoveDeprecated removeDeprecated
   \<and> keptValues colour removeDeprecated \<noteq> []
   \<and> (\<exists>out. enumsToCustomTypes asciiText [] [deprecatedEmptyEnum, colour] removeDeprecated = Inr out)"
proof -
  have a: "\<not> (isDeprecated (OfEnum (ed_Options emptyEnum)) \<and> RemoveDeprecated removeDeprecated)"
    "ed_Value emptyEnum = []"
    by (simp_all add: emptyEnum_def)
  have b: "isDeprecated (OfEnum (ed_Options deprecatedEmptyEnum))"
    "RemoveDeprecated removeDeprecated"
    by (simp_all add: deprecatedEmptyEnum_def emptyEnum_def isDeprecatedPtr_def
          removeDeprecated_def noParameters_def)
  have c: "keptValues colour removeDeprecated \<noteq> []"
    by (simp add: keptValues_def colour_def enumValue_def isDeprecatedPtr_def)
  show ?thesis
    using a b c
      C10_enum_without_surviving_variant_panics [of emptyEnum "[colour, emptyEnum]"
        removeDeprecated asciiText "[]"]
      C10_enum_without_surviving_variant_panics [of _ "[deprecatedEmptyEnum, colour]"
        removeDeprecated asciiText "[]"]
    by simp
qed

text \<open>
  The claim as stated fails: an enum without values that is itself deprecated is skipped
  when deprecated elements are removed, and the conversion returns.
\<close>

theorem C10_deprecated_empty_enum_counterexample:
  "ed_Value deprecatedEmptyEnum = []
   \<and> enumsToCustomTypes asciiText [] [deprecatedEmptyEnum] removeDeprecated = Inr []"
  by code_simp

lemma enumsToCustomTypes_defaults:
  "enumsToCustomTypes tf preface enumPbs p = Inr out \<Longrightarrow>
   map ect_DefaultVariantValue out =
     map (\<lambda>e. NestedVariantName tf (GetString (evd_Name (hd (keptValues e p)))) preface)
       (filter (\<lambda>e. \<not> (isDeprecated (OfEnum (ed_Options e)) \<and> RemoveDeprecated p)) enumPbs)"
proof (induction enumPbs arbitrary: out)
  case Nil
  then show ?case by (simp add: enumsToCustomTypes_def)
next
  case (Cons e es)
  from Cons.prems obtain r rs where
    r: "enumsToCustomTypes tf preface [e] p = Inr r" and
    rs: "enumsToCustomTypes tf preface es p = Inr rs" and
    out: "out = r @ rs"
    unfolding enumsToCustomTypes_def
    by (subst (asm) forEach_Cons_single) (auto simp: rbind_def split: sum.splits)
  have "map ect_DefaultVariantValue r =
     map (\<lambda>e. NestedVariantName tf (GetString (evd_Name (hd (keptValues e p)))) preface)
       (filter (\<lambda>e. \<not> (isDeprecated (OfEnum (ed_Options e)) \<and> RemoveDeprecated p)) [e])"
    using r
    by (cases "keptValues e p")
       (auto simp: enumsToCustomTypes_def rbind_def index_def Let_def split: if_splits)
  then show ?case
    using Cons.IH [OF rs] out by simp
qed

lemma hd_keptValues:
  "\<not> RemoveDeprecated p
     \<or> (ed_Value e \<noteq> [] \<and> \<not> isDeprecated (OfEnumValue (evd_Options (hd (ed_Value e)))))
   \<Longrightarrow> hd (keptValues e p) = hd (ed_Value e)"
  by (cases "ed_Value e") (auto simp: keptValues_def)

text \<open>
  Claim C5, as amended. When \<^verbatim>\<open>enumsToCustomTypes\<close> returns, the
  \<^verbatim>\<open>DefaultVariantValue\<close> of each custom type is the resolved name of the first value
  that its enum keeps (\<open>keptValues\<close>): one of its declared values, and the first declared
  one when deprecated elements are not removed or that value is not deprecated.
\<close>

theorem C5_default_is_first_kept_variant:
  assumes "enumsToCustomTypes tf preface enumPbs p = Inr out"
  shows "map ect_DefaultVariantValue out =
           map (\<lambda>e. NestedVariantName tf (GetString (evd_Name (hd (keptValues e p)))) preface)
             (filter (\<lambda>e. \<not> (isDeprecated (OfEnum (ed_Options e)) \<and> RemoveDeprecated p)) enumPbs)
         \<and> (\<forall>e\<in>set enumPbs. \<not> (isDeprecated (OfEnum (ed_Options e)) \<and> RemoveDeprecated p)
               \<longrightarrow> keptValues e p \<noteq> [] \<and> hd (keptValues e p) \<in> set (ed_Value e))
         \<and> (\<forall>e\<in>set enumPbs.
               \<not> RemoveDeprecated p
               \<or> (ed_Value e \<noteq> [] \<and> \<not> isDeprecated (OfEnumValue (evd_Options (hd (ed_Value e)))))
               \<longrightarrow> hd (keptValues e p) = hd (ed_Value e))"
proof (intro conjI ballI impI)
  show "map ect_DefaultVariantValue out =
           map (\<lambda>e. NestedVariantName tf (GetString (evd_Name (hd (keptValues e p)))) preface)
             (filter (\<lambda>e. \<not> (isDeprecated (OfEnum (ed_Options e)) \<and> RemoveDeprecated p)) enumPbs)"
    using assms by (rule enumsToCustomTypes_defaults)
next
  fix e assume e: "e \<in> set enumPbs" "\<not> (isDeprecated (OfEnum (ed_Options e)) \<and> RemoveDeprecated p)"
  have "\<not> isl (enumsToCustomTypes tf preface enumPbs p)" using assms by simp
  then show k: "keptValues e p \<noteq> []"
    unfolding enumsToCustomTypes_isl using e by blast
  have "hd (keptValues e p) \<in> set (keptValues e p)" using k by simp
  then show "hd (keptValues e p) \<in> set (ed_Value e)" by (simp add: keptValues_def)
next
  fix e :: EnumDescriptorProto
  assume "e \<in> set enumPbs"
  assume "\<not> RemoveDeprecated p
     \<or> (ed_Value e \<noteq> [] \<and> \<not> isDeprecated (OfEnumValue (evd_Options (hd (ed_Value e)))))"
  then show "hd (keptValues e p) = hd (ed_Value e)" by (rule hd_keptValues)
qed

theorem C5_default_is_first_kept_variant_witness:
  "enumsToCustomTypes asciiText [] [colour] noParameters
     = Inr [\<lparr>ect_Name = ''Colour'', ect_Decoder = ''colourPortDecoder'',
              ect_Encoder = ''colourPortEncoder'', ect_DefaultVariantVariable = ''colourDefault'',
              ect_DefaultVariantValue = ''Red'',
              ect_Variants = [\<lparr>ev_Name = ''Red'', ev_Value = 0\<rparr>,
                              \<lparr>ev_Name = ''Green'', ev_Value = 1\<rparr>,
                              \<lparr>ev_Name = ''Blue'', ev_Value = 2\<rparr>]\<rparr>]
   \<and> colour \<in> set [colour]
   \<and> \<not> RemoveDeprecated noParameters
   \<and> hd (keptValues colour noParameters) = hd (ed_Value colour)
   \<and> hd (keptValues colour noParameters) \<in> set (ed_Value colour)
   \<and> ''Red'' = NestedVariantName asciiText (GetString (evd_Name (hd (ed_Value colour)))) []"
proof -
  have h: "enumsToCustomTypes asciiText [] [colour] noParameters
     = Inr [\<lparr>ect_Name = ''Colour'', ect_Decoder = ''colourPortDecoder'',
              ect_Encoder = ''colourPortEncoder'', ect_DefaultVariantVariable = ''colourDefault'',
              ect_DefaultVariantValue = ''Red'',
              ect_Variants = [\<lparr>ev_Name = ''Red'', ev_Value = 0\<rparr>,
                              \<lparr>ev_Name = ''Green'', ev_Value = 1\<rparr>,
                              \<lparr>ev_Name = ''Blue'', ev_Value = 2\<rparr>]\<rparr>]"
    by code_simp
  have n: "\<not> RemoveDeprecated noParameters"
    by (simp add: noParameters_def)
  note c5 = C5_default_is_first_kept_variant [OF h]
  have 1: "hd (keptValues colour noParameters) = hd (ed_Value colour)"
    using c5 n by auto
  have 2: "hd (keptValues colour noParameters) \<in> set (ed_Value colour)"
    using c5 n by auto
  have "''Red'' = NestedVariantName asciiText
                    (GetString (evd_Name (hd (keptValues colour noParameters)))) []"
    using c5 n by auto
  then have 3: "''Red'' = NestedVariantName asciiText (GetString (evd_Name (hd (ed_Value colour)))) []"
    unfolding 1 .
  show ?thesis
    by (intro conjI h n 1 2 3) simp
qed

text \<open>
  The claim as stated fails: when deprecated elements are removed and the first declared
  value (\<^verbatim>\<open>RED\<close>) is deprecated, the default variant is the second one.
\<close>

theorem C5_first_variant_deprecated_counterexample:
  "enumsToCustomTypes asciiText [] [colour] removeDeprecated
     = Inr [\<lparr>ect_Name = ''Colour'', ect_Decoder = ''colourPortDecoder'',
              ect_Encoder = ''colourPortEncoder'', ect_DefaultVariantVariable = ''colourDefault'',
              ect_DefaultVariantValue = ''Green'',
              ect_Variants = [\<lparr>ev_Name = ''Green'', ev_Value = 1\<rparr>,
                              \<lparr>ev_Name = ''Blue'', ev_Value = 2\<rparr>]\<rparr>]
   \<and> NestedVariantName asciiText (GetString (evd_Name (hd (ed_Value colour)))) [] = ''Red''"
  by code_simp

section \<open>Default values\<close>

lemma fieldDefault_bool:
  "GetType f = TYPE_BOOL \<Longrightarrow> GetString (fd_DefaultValue f) = c # cs \<Longrightarrow>
   fieldDefault tf f = Inr (ToUpper1 [c] @ cs)"
  by (simp add: fieldDefault_def rbind_def ToUpper1_def kind_defs split: option.splits)

lemma fieldDefault_bool_without_default:
  "GetType f = TYPE_BOOL \<Longrightarrow> GetString (fd_DefaultValue f) = [] \<Longrightarrow>
   fieldDefault tf f = Inl (SliceBoundsOutOfRange 1 0)"
  by (simp add: fieldDefault_def rbind_def kind_defs)

lemma fieldDefault_string:
  "GetType f = TYPE_STRING \<Longrightarrow>
   fieldDefault tf f =
     Inr ([CHR 0x22] @ ReplaceByte (GetString (fd_DefaultValue f)) (CHR 0x22) [CHR 0x5C, CHR 0x22]
            @ [CHR 0x22])"
  by (simp add: fieldDefault_def rbind_def)

lemma fieldDefault_int32:
  "GetType f = TYPE_INT32 \<Longrightarrow> GetString (fd_DefaultValue f) = [] \<Longrightarrow>
   GetLabel f \<noteq> LABEL_REPEATED \<Longrightarrow> fieldDefault tf f = Inr ''0''"
  by (simp add: fieldDefault_def rbind_def BasicFieldDefaultValue_def Let_def kind_defs)

lemma messageField_required:
  assumes "fd_OneofIndex f = None" "getNestedType f m = None" "\<not> isOptional f" "\<not> isRepeated f"
    and "messageField tf np m al f = Inr al'"
  shows "\<exists>slot. ta_Fields al' = ta_Fields al @ [slot]
           \<and> ta_FieldEncoders al' = ta_FieldEncoders al @ [slot]
           \<and> fieldDefault tf f = Inr (taf_Default slot)"
  using assms
  by (auto simp: messageField_def rbind_def appendField_def split: sum.splits)

text \<open>
  Claim C6, as amended. For a bool field with an explicit default that is not empty,
  \<^verbatim>\<open>fieldDefault\<close> returns the default with its first byte upper-cased and the rest as
  it is, so that \<^verbatim>\<open>false\<close> gives \<^verbatim>\<open>False\<close> and \<^verbatim>\<open>true\<close> gives \<^verbatim>\<open>True\<close>; for a
  string field it returns the default between double quotes, with a backslash before
  each double quote of the default; for an int32 field that is not repeated and has no
  default it returns \<^verbatim>\<open>0\<close>. This is the \<^verbatim>\<open>Default\<close> of the field that \<^verbatim>\<open>messages\<close>
  builds for a required field, that is a field outside any oneof that is neither a map,
  nor an optional message, nor repeated. (What a bool field without a default gives is
  left out here; see \<open>fieldDefault_bool_without_default\<close>.)
\<close>

theorem C6_required_field_defaults:
  "(GetType f = TYPE_BOOL \<and> GetString (fd_DefaultValue f) = c # cs
      \<longrightarrow> fieldDefault tf f = Inr (ToUpper1 [c] @ cs))
   \<and> (GetType f = TYPE_BOOL \<and> GetString (fd_DefaultValue f) = ''false''
      \<longrightarrow> fieldDefault tf f = Inr ''False'')
   \<and> (GetType f = TYPE_BOOL \<and> GetString (fd_DefaultValue f) = ''true''
      \<longrightarrow> fieldDefault tf f = Inr ''True'')
   \<and> (GetType f = TYPE_STRING
      \<longrightarrow> fieldDefault tf f =
            Inr ([CHR 0x22]
                 @ ReplaceByte (GetString (fd_DefaultValue f)) (CHR 0x22) [CHR 0x5C, CHR 0x22]
                 @ [CHR 0x22]))
   \<and> (GetType f = TYPE_INT32 \<and> GetString (fd_DefaultValue f) = [] \<and> GetLabel f \<noteq> LABEL_REPEATED
      \<longrightarrow> fieldDefault tf f = Inr ''0'')
   \<and> (fd_OneofIndex f = None \<and> getNestedType f m = None \<and> \<not> isOptional f \<and> \<not> isRepeated f
       \<and> messageField tf np m al f = Inr al'
      \<longrightarrow> (\<exists>slot. ta_Fields al' = ta_Fields al @ [slot]
                 \<and> ta_FieldEncoders al' = ta_FieldEncoders al @ [slot]
                 \<and> fieldDefault tf f = Inr (taf_Default slot)))"
proof (intro conjI impI)
  assume "GetType f = TYPE_BOOL \<and> GetString (fd_DefaultValue f) = c # cs"
  then show "fieldDefault tf f = Inr (ToUpper1 [c] @ cs)"
    using fieldDefault_bool by blast
next
  assume "GetType f = TYPE_BOOL \<and> GetString (fd_DefaultValue f) = ''false''"
  then have "fieldDefault tf f = Inr (ToUpper1 ''f'' @ ''alse'')"
    using fieldDefault_bool by blast
  then show "fieldDefault tf f = Inr ''False''"
    by (simp add: ToUpper1_def)
next
  assume "GetType f = TYPE_BOOL \<and> GetString (fd_DefaultValue f) = ''true''"
  then have "fieldDefault tf f = Inr (ToUpper1 ''t'' @ ''rue'')"
    using fieldDefault_bool by blast
  then show "fieldDefault tf f = Inr ''True''"
    by (simp add: ToUpper1_def)
next
  assume "GetType f = TYPE_STRING"
  then show "fieldDefault tf f =
            Inr ([CHR 0x22]
                 @ ReplaceByte (GetString (fd_DefaultValue f)) (CHR 0x22) [CHR 0x5C, CHR 0x22]
                 @ [CHR 0x22])"
    by (rule fieldDefault_string)
next
  assume "GetType f = TYPE_INT32 \<and> GetString (fd_DefaultValue f) = [] \<and> GetLabel f \<noteq> LABEL_REPEATED"
  then show "fieldDefault tf f = Inr ''0''"
    using fieldDefault_int32 by blast
next
  assume "fd_OneofIndex f = None \<and> getNestedType f m = None \<and> \<not> isOptional f \<and> \<not> isRepeated f
       \<and> messageField tf np m al f = Inr al'"
  then show "\<exists>slot. ta_Fields al' = ta_Fields al @ [slot]
                 \<and> ta_FieldEncoders al' = ta_FieldEncoders al @ [slot]
                 \<and> fieldDefault tf f = Inr (taf_Default slot)"
    using messageField_required by blast
qed

theorem C6_required_field_defaults_witness:
  "GetType ((field ''d'' 4 TYPE_BOOL)\<lparr>fd_DefaultValue := Some ''false''\<rparr>) = TYPE_BOOL
   \<and> fieldDefault asciiText ((field ''d'' 4 TYPE_BOOL)\<lparr>fd_DefaultValue := Some ''false''\<rparr>)
       = Inr ''False''
   \<and> fieldDefault asciiText ((field ''e'' 5 TYPE_BOOL)\<lparr>fd_DefaultValue := Some ''true''\<rparr>)
       = Inr ''True''
   \<and> GetType ((field ''s'' 1 TYPE_STRING)
        \<lparr>fd_DefaultValue := Some (''He said '' @ [CHR 0x22] @ ''hi'' @ [CHR 0x22])\<rparr>) = TYPE_STRING
   \<and> fieldDefault asciiText ((field ''s'' 1 TYPE_STRING)
        \<lparr>fd_DefaultValue := Some (''He said '' @ [CHR 0x22] @ ''hi'' @ [CHR 0x22])\<rparr>)
       = Inr ([CHR 0x22] @ ''He said '' @ [CHR 0x5C, CHR 0x22] @ ''hi'' @ [CHR 0x5C, CHR 0x22]
              @ [CHR 0x22])
   \<and> GetType (field ''n'' 1 TYPE_INT32) = TYPE_INT32
   \<and> GetLabel (field ''n'' 1 TYPE_INT32) \<noteq> LABEL_REPEATED
   \<and> fieldDefault asciiText (field ''n'' 1 TYPE_INT32) = Inr ''0''
   \<and> messageField asciiText [''Single''] single4
        \<lparr>ta_Name = ''Single'', ta_Decoder = ''singlePortDecoder'',
         ta_Encoder = ''singlePortEncoder'', ta_FieldEncoders = [], ta_Fields = []\<rparr>
        ((field ''d'' 4 TYPE_BOOL)\<lparr>fd_DefaultValue := Some ''false''\<rparr>)
       = Inr \<lparr>ta_Name = ''Single'', ta_Decoder = ''singlePortDecoder'',
              ta_Encoder = ''singlePortEncoder'',
              ta_FieldEncoders =
                [\<lparr>taf_Name = ''d'', taf_Type = ''Bool'', taf_Number = 4, taf_Default = ''False'',
                  taf_Decoder = ''idxWithDefault 3 JD.bool False'', taf_Encoder = ''JE.bool v.d''\<rparr>],
              ta_Fields =
                [\<lparr>taf_Name = ''d'', taf_Type = ''Bool'', taf_Number = 4, taf_Default = ''False'',
                  taf_Decoder = ''idxWithDefault 3 JD.bool False'', taf_Encoder = ''JE.bool v.d''\<rparr>]\<rparr>"
proof -
  let ?b = "(field ''d'' 4 TYPE_BOOL)\<lparr>fd_DefaultValue := Some ''false''\<rparr>"
  let ?t = "(field ''e'' 5 TYPE_BOOL)\<lparr>fd_DefaultValue := Some ''true''\<rparr>"
  let ?s = "(field ''s'' 1 TYPE_STRING)
        \<lparr>fd_DefaultValue := Some (''He said '' @ [CHR 0x22] @ ''hi'' @ [CHR 0x22])\<rparr>"
  let ?n = "field ''n'' 1 TYPE_INT32"
  let ?al = "\<lparr>ta_Name = ''Single'', ta_Decoder = ''singlePortDecoder'',
         ta_Encoder = ''singlePortEncoder'', ta_FieldEncoders = [], ta_Fields = []\<rparr>"
  have b: "GetType ?b = TYPE_BOOL" "GetString (fd_DefaultValue ?b) = ''false''"
    by (simp_all add: field_def GetType_def GetString_def)
  have t: "GetType ?t = TYPE_BOOL" "GetString (fd_DefaultValue ?t) = ''true''"
    by (simp_all add: field_def GetType_def GetString_def)
  have s: "GetType ?s = TYPE_STRING"
    "GetString (fd_DefaultValue ?s) = ''He said '' @ [CHR 0x22] @ ''hi'' @ [CHR 0x22]"
    by (simp_all add: field_def GetType_def GetString_def)
  have n: "GetType ?n = TYPE_INT32" "GetString (fd_DefaultValue ?n) = []"
    "GetLabel ?n \<noteq> LABEL_REPEATED"
    by (simp_all add: field_def GetType_def GetString_def GetLabel_def label_defs)
  have r: "fd_OneofIndex ?b = None" "getNestedType ?b single4 = None" "\<not> isOptional ?b"
    "\<not> isRepeated ?b"
    by (simp_all add: field_def getNestedType_def single4_def message_def isOptional_def
          isRepeated_def GetLabel_def GetType_def label_defs kind_defs)
  have mf: "messageField asciiText [''Single''] single4 ?al ?b
       = Inr \<lparr>ta_Name = ''Single'', ta_Decoder = ''singlePortDecoder'',
              ta_Encoder = ''singlePortEncoder'',
              ta_FieldEncoders =
                [\<lparr>taf_Name = ''d'', taf_Type = ''Bool'', taf_Number = 4, taf_Default = ''False'',
                  taf_Decoder = ''idxWithDefault 3 JD.bool False'', taf_Encoder = ''JE.bool v.d''\<rparr>],
              ta_Fields =
                [\<lparr>taf_Name = ''d'', taf_Type = ''Bool'', taf_Number = 4, taf_Default = ''False'',
                  taf_Decoder = ''idxWithDefault 3 JD.bool False'', taf_Encoder = ''JE.bool v.d''\<rparr>]\<rparr>"
    by code_simp
  have 1: "fieldDefault asciiText ?b = Inr ''False''"
    using C6_required_field_defaults [of ?b _ _ asciiText] b by blast
  have 2: "fieldDefault asciiText ?t = Inr ''True''"
    using C6_required_field_defaults [of ?t _ _ asciiText] t by blast
  have "fieldDefault asciiText ?s =
          Inr ([CHR 0x22]
               @ ReplaceByte (GetString (fd_DefaultValue ?s)) (CHR 0x22) [CHR 0x5C, CHR 0x22]
               @ [CHR 0x22])"
    using C6_required_field_defaults [of ?s _ _ asciiText] s(1) by blast
  then have 3: "fieldDefault asciiText ?s
       = Inr ([CHR 0x22] @ ''He said '' @ [CHR 0x5C, CHR 0x22] @ ''hi'' @ [CHR 0x5C, CHR 0x22]
              @ [CHR 0x22])"
    unfolding s(2) by (simp add: ReplaceByte_def)
  have 4: "fieldDefault asciiText ?n = Inr ''0''"
    using C6_required_field_defaults [of ?n _ _ asciiText] n by blast
  have "\<exists>slot. ta_Fields
            \<lparr>ta_Name = ''Single'', ta_Decoder = ''singlePortDecoder'',
              ta_Encoder = ''singlePortEncoder'',
              ta_FieldEncoders =
                [\<lparr>taf_Name = ''d'', taf_Type = ''Bool'', taf_Number = 4, taf_Default = ''False'',
                  taf_Decoder = ''idxWithDefault 3 JD.bool False'', taf_Encoder = ''JE.bool v.d''\<rparr>],
              ta_Fields =
                [\<lparr>taf_Name = ''d'', taf_Type = ''Bool'', taf_Number = 4, taf_Default = ''False'',
                  taf_Decoder = ''idxWithDefault 3 JD.bool False'', taf_Encoder = ''JE.bool v.d''\<rparr>]\<rparr>
          = ta_Fields ?al @ [slot]
        \<and> fieldDefault asciiText ?b = Inr (taf_Default slot)"
    using C6_required_field_defaults [of ?b _ _ asciiText single4 "[''Single'']" ?al] r mf
    by blast
  show ?thesis
    by (intro conjI b(1) 1 2 s(1) 3 n(1) n(3) 4 mf)
qed

text \<open>
  The claim as stated fails: the default \<^verbatim>\<open>true\<close> of a bool field resolves to
  \<^verbatim>\<open>True\<close>, not to \<^verbatim>\<open>False\<close>, and only the first byte is upper-cased, so that
  \<^verbatim>\<open>FALSE\<close> stays as it is.
\<close>

theorem C6_bool_default_counterexample:
  "fieldDefault asciiText ((field ''e'' 5 TYPE_BOOL)\<lparr>fd_DefaultValue := Some ''true''\<rparr>)
     = Inr ''True''
   \<and> fieldDefault asciiText ((field ''d'' 4 TYPE_BOOL)\<lparr>fd_DefaultValue := Some ''FALSE''\<rparr>)
     = Inr ''FALSE''"
  by code_simp

end
